theory Spec2Isabelle
  imports Main "HOL-Library.AList" "HOL-Library.Multiset" "HOL-Library.Word"
begin

section \<open>The bindings to the mock engine (package native)\<close>

subsection \<open>Data\<close>

text \<open>
  Go's \<^verbatim>\<open>int\<close> is an integer, \<^verbatim>\<open>C.int\<close> a word of 32 bits: \<^verbatim>\<open>C.int(port)\<close> keeps the low
  32 bits, \<^verbatim>\<open>int(p)\<close> reads the word as a signed number.
\<close>

definition C_int :: "int \<Rightarrow> 32 word" where
  "C_int x = word_of_int x"

definition Go_int :: "32 word \<Rightarrow> int" where
  "Go_int p = sint p"

record PluginInteractionMismatchDetail =
  Actual :: string
  Expected :: string
  Mismatch :: string

record PluginInteractionMismatch =
  Mismatches :: "PluginInteractionMismatchDetail list"

text \<open>
  An \<^verbatim>\<open>error\<close> is the message it was made from (\<^verbatim>\<open>fmt.Errorf\<close>, or an error of a
  collaborator). The error of a failed verification,
  \<^verbatim>\<open>fmt.Errorf("pact validation failed: %+v %+v", res, mismatches)\<close>, is kept with the two
  values it prints.
\<close>

datatype error =
  Errorf string
| PactValidationFailed bool PluginInteractionMismatch

text \<open>
  The functions of the engine's C library that the package declares and calls, and the two
  functions of \<^verbatim>\<open>encoding/json\<close>. They are not part of the repository: a run is given what
  they return. \<^verbatim>\<open>json.Marshal\<close> is applied to the list of interactions that the payload
  wraps; \<^verbatim>\<open>json.Unmarshal\<close> returns the value decoded, or the error.
\<close>

record 'i extern =
  create_plugin_mock_server :: "32 word \<Rightarrow> string \<Rightarrow> 32 word"
  add_plugin_interaction :: "32 word \<Rightarrow> string \<Rightarrow> 32 word"
  plugin_mock_server_mismatches :: "32 word \<Rightarrow> string"
  plugin_mock_server_matched :: "32 word \<Rightarrow> 32 word"
  cleanup_plugin_mock_server :: "32 word \<Rightarrow> 32 word"
  write_pact_file :: "32 word \<Rightarrow> string \<Rightarrow> 32 word"
  json_Marshal :: "'i list \<Rightarrow> error + string"
  json_Unmarshal :: "string \<Rightarrow> error + PluginInteractionMismatch"

text \<open>
  What a run does to the outside is kept as the list of its calls, in order: every call of
  the engine with its arguments and the value it returned, the call of the test callback,
  and the reset of the interaction list.
\<close>

datatype event =
  Call_create_plugin_mock_server "32 word" string "32 word"
| Call_add_plugin_interaction "32 word" string "32 word"
| Call_plugin_mock_server_matched "32 word" "32 word"
| Call_plugin_mock_server_mismatches "32 word" string
| Call_cleanup_plugin_mock_server "32 word" "32 word"
| Call_write_pact_file "32 word" string "32 word"
| Call_integrationTest
| Call_cleanInteractions

subsection \<open>The plugin functions\<close>

text \<open>\<^verbatim>\<open>func CreatePluginMockServer(port int, cmd string) (int, error)\<close>\<close>

definition CreatePluginMockServer ::
  "'i extern \<Rightarrow> int \<Rightarrow> string \<Rightarrow> (int \<times> error option) \<times> event list" where
  "CreatePluginMockServer E port cmd =
     (let p = create_plugin_mock_server E (C_int port) cmd
      in ((Go_int p, None), [Call_create_plugin_mock_server (C_int port) cmd p]))"

text \<open>\<^verbatim>\<open>func AddPluginInteractions(port int, interactions []interface{}) error\<close>\<close>

definition AddPluginInteractions ::
  "'i extern \<Rightarrow> int \<Rightarrow> 'i list \<Rightarrow> error option \<times> event list" where
  "AddPluginInteractions E port interactions =
     (case json_Marshal E interactions of
        Inl err \<Rightarrow> (Some err, [])
      | Inr b \<Rightarrow>
          (None, [Call_add_plugin_interaction (C_int port) b
                    (add_plugin_interaction E (C_int port) b)]))"

text \<open>\<^verbatim>\<open>func CleanupPluginMockServer(port int) bool\<close>\<close>

definition CleanupPluginMockServer :: "'i extern \<Rightarrow> int \<Rightarrow> bool \<times> event list" where
  "CleanupPluginMockServer E port =
     (let res = cleanup_plugin_mock_server E (C_int port)
      in (Go_int res = 1, [Call_cleanup_plugin_mock_server (C_int port) res]))"

text \<open>\<^verbatim>\<open>func PluginMockServerMismatchedRequests(port int) (PluginInteractionMismatch, error)\<close>\<close>

definition PluginMockServerMismatchedRequests ::
  "'i extern \<Rightarrow> int \<Rightarrow> (PluginInteractionMismatch \<times> error option) \<times> event list" where
  "PluginMockServerMismatchedRequests E port =
     (let mismatches = plugin_mock_server_mismatches E (C_int port);
          ev = [Call_plugin_mock_server_mismatches (C_int port) mismatches]
      in case json_Unmarshal E mismatches of
           Inl err \<Rightarrow> ((\<lparr>Mismatches = []\<rparr>, Some err), ev)
         | Inr res \<Rightarrow> ((res, None), ev))"

text \<open>\<^verbatim>\<open>func VerifyPlugin(port int) (bool, PluginInteractionMismatch)\<close>\<close>

definition VerifyPlugin ::
  "'i extern \<Rightarrow> int \<Rightarrow> (bool \<times> PluginInteractionMismatch) \<times> event list" where
  "VerifyPlugin E port =
     (let res = plugin_mock_server_matched E (C_int port);
          ev = [Call_plugin_mock_server_matched (C_int port) res]
      in case PluginMockServerMismatchedRequests E port of
           ((mismatched, err), ev') \<Rightarrow>
             if err \<noteq> None then ((False, \<lparr>Mismatches = []\<rparr>), ev @ ev')
             else ((Go_int res = 1, mismatched), ev @ ev'))"

text \<open>The errors of \<^verbatim>\<open>WritePactFile\<close>, and \<^verbatim>\<open>func WritePactFile(port int, dir string) error\<close>.\<close>

definition ErrMockServerPanic :: error where
  "ErrMockServerPanic = Errorf
     ''a general panic occured when starting/invoking mock service (this indicates a defect in the framework)''"

definition ErrUnableToWritePactFile :: error where
  "ErrUnableToWritePactFile = Errorf ''unable to write to file''"

definition ErrMockServerNotfound :: error where
  "ErrMockServerNotfound = Errorf ''unable to find mock server with the given port''"

definition WritePactFile :: "'i extern \<Rightarrow> int \<Rightarrow> string \<Rightarrow> error option \<times> event list" where
  "WritePactFile E port dir =
     (let r = write_pact_file E (C_int port) dir;
          res = Go_int r;
          ev = [Call_write_pact_file (C_int port) dir r]
      in if res = 0 then (None, ev)
         else if res = 1 then (Some ErrMockServerPanic, ev)
         else if res = 2 then (Some ErrUnableToWritePactFile, ev)
         else if res = 3 then (Some ErrMockServerNotfound, ev)
         else (Some (Errorf ''an unknown error ocurred when writing to pact file''), ev))"

section \<open>The plugin provider (package v3)\<close>

subsection \<open>Data\<close>

record 't MockServerConfig =
  Port :: int
  Host :: string
  TLSConfig :: 't

record PluginProviderConfig =
  Consumer :: string
  Provider :: string
  LogDir :: string
  PactDir :: string
  Host :: string
  Port :: int

record 'i PluginProvider =
  config :: PluginProviderConfig
  Interactions :: "'i list"

subsection \<open>Configuration\<close>

text \<open>
  \<^verbatim>\<open>filepath.Join(dir, name)\<close> on two elements: the elements from the first non-empty one
  on are joined with the separator and cleaned. \<^verbatim>\<open>filepath.Clean\<close> is a parameter.
\<close>

definition filepath_Join :: "(string \<Rightarrow> string) \<Rightarrow> string \<Rightarrow> string \<Rightarrow> string" where
  "filepath_Join Clean dir name =
     (if dir \<noteq> [] then Clean (dir @ ''/'' @ name)
      else if name \<noteq> [] then Clean name
      else [])"

text \<open>
  \<^verbatim>\<open>fmt.Sprintf(format)\<close> with a format and no operand: the bytes of the format are copied
  up to a \<^verbatim>\<open>%\<close>; \<^verbatim>\<open>%%\<close> gives \<^verbatim>\<open>%\<close>; a \<^verbatim>\<open>%\<close> followed at once by a letter \<open>v\<close> is a
  verb with no operand and gives \<^verbatim>\<open>%!v(MISSING)\<close>; a \<^verbatim>\<open>%\<close> that ends the format gives
  \<^verbatim>\<open>%!(NOVERB)\<close>. What the library prints from a \<^verbatim>\<open>%\<close> followed by anything else (a flag,
  a width, a precision, an argument index, another byte) is the parameter \<open>other\<close>.
\<close>

definition letter :: "char \<Rightarrow> bool" where
  "letter c = ((97 \<le> (of_char c :: nat) \<and> (of_char c :: nat) \<le> 122)
             \<or> (65 \<le> (of_char c :: nat) \<and> (of_char c :: nat) \<le> 90))"

fun Sprintf :: "(string \<Rightarrow> string) \<Rightarrow> string \<Rightarrow> string" where
  "Sprintf other [] = []"
| "Sprintf other [c] = (if c = CHR ''%'' then ''%!(NOVERB)'' else [c])"
| "Sprintf other (c # v # rest) =
     (if c \<noteq> CHR ''%'' then c # Sprintf other (v # rest)
      else if v = CHR ''%'' then CHR ''%'' # Sprintf other rest
      else if letter v then ''%!'' @ [v] @ ''(MISSING)'' @ Sprintf other rest
      else other (c # v # rest))"

text \<open>
  Modelled from the spec: \<^verbatim>\<open>utils.GetFreePort\<close> is code of the repository that is not
  among the sources. It is "the OS ephemeral-port mechanism", which returns a port or fails
  to obtain one; a run is given the pair of port and error that the call returns.

  The other surroundings of \<open>validateConfig\<close> are the directory returned by
  \<^verbatim>\<open>os.Getwd()\<close> (its error is dropped) and the parameters of the two library functions
  above.
\<close>

record os =
  Getwd :: string
  Clean :: "string \<Rightarrow> string"
  Sprintf_other :: "string \<Rightarrow> string"
  GetFreePort :: "int \<times> error option"

text \<open>\<^verbatim>\<open>func (p *PluginProvider) validateConfig() error\<close>: the provider is returned updated.\<close>

definition validateConfig :: "os \<Rightarrow> 'i PluginProvider \<Rightarrow> error option \<times> 'i PluginProvider" where
  "validateConfig os p =
     (let dir = Getwd os;
          p = (if PluginProviderConfig.Host (config p) = ''''
               then p\<lparr>config := (config p)\<lparr>PluginProviderConfig.Host := ''127.0.0.1''\<rparr>\<rparr>
               else p);
          p = (if LogDir (config p) = ''''
               then p\<lparr>config := (config p)\<lparr>LogDir :=
                      Sprintf (Sprintf_other os) (filepath_Join (Clean os) dir ''logs'')\<rparr>\<rparr>
               else p);
          p = (if PactDir (config p) = ''''
               then p\<lparr>config := (config p)\<lparr>PactDir :=
                      Sprintf (Sprintf_other os) (filepath_Join (Clean os) dir ''pacts'')\<rparr>\<rparr>
               else p);
          (p, pErr) = (if PluginProviderConfig.Port (config p) \<le> 0
                       then (case GetFreePort os of
                               (port, err) \<Rightarrow>
                                 (p\<lparr>config := (config p)\<lparr>PluginProviderConfig.Port := port\<rparr>\<rparr>, err))
                       else (p, None))
      in if pErr \<noteq> None
         then (Some (Errorf ''error: unable to find free port, mock server will fail to start''), p)
         else (None, p))"

text \<open>\<^verbatim>\<open>func NewPluginProvider(config PluginProviderConfig) (*PluginProvider, error)\<close>\<close>

definition NewPluginProvider ::
  "os \<Rightarrow> PluginProviderConfig \<Rightarrow> 'i PluginProvider option \<times> error option" where
  "NewPluginProvider os cfg =
     (let provider = \<lparr>config = cfg, Interactions = []\<rparr>;
          (err, provider) = validateConfig os provider
      in if err \<noteq> None then (None, err) else (Some provider, err))"

subsection \<open>Interactions\<close>

text \<open>\<^verbatim>\<open>func (p *PluginProvider) cleanInteractions()\<close>\<close>

definition cleanInteractions :: "'i PluginProvider \<Rightarrow> 'i PluginProvider" where
  "cleanInteractions p = p\<lparr>Interactions := []\<rparr>"

text \<open>\<^verbatim>\<open>func (p *PluginProvider) AddInteraction(i interface{})\<close>\<close>

definition AddInteraction :: "'i \<Rightarrow> 'i PluginProvider \<Rightarrow> 'i PluginProvider" where
  "AddInteraction i p = p\<lparr>Interactions := Interactions p @ [i]\<rparr>"

subsection \<open>Running a test\<close>

text \<open>
  \<^verbatim>\<open>func (p *PluginProvider) WritePact() error\<close>: the body writes a line to the log and
  returns nil. It returns the error and the calls it made.
\<close>

definition WritePact :: "'i PluginProvider \<Rightarrow> error option \<times> event list" where
  "WritePact p = (None, [])"

text \<open>
  Modelled from the spec: \<^verbatim>\<open>waitForPort\<close> and \<^verbatim>\<open>GetTLSConfigForTLSMockServer\<close> are
  functions of package v3 that are not among the sources. \<^verbatim>\<open>waitForPort\<close> is to "poll for
  listener readiness (bounded retry loop with fixed timeout, default 10 seconds)", where
  "failure surfaces as a timeout error naming the port and elapsed bound"; a run is given
  the error it returns for the port, the network, the host and the seconds of the timeout.
  \<^verbatim>\<open>GetTLSConfigForTLSMockServer()\<close> returns a value that is handed to the callback as it
  is.
\<close>

record 't absent =
  waitForPort :: "int \<Rightarrow> string \<Rightarrow> string \<Rightarrow> nat \<Rightarrow> error option"
  GetTLSConfigForTLSMockServer :: 't

text \<open>
  \<^verbatim>\<open>func (p *PluginProvider) ExecuteTest(integrationTest func(MockServerConfig) error) error\<close>
  returns the error, the provider as the run leaves it, and the calls made. A \<^verbatim>\<open>defer\<close>
  splits the body: what follows the \<^verbatim>\<open>defer\<close> is a function of its own, and the deferred
  call is made when that function has returned, on each of its paths.

  \<open>ExecuteTest_loaded\<close> is the body after \<^verbatim>\<open>defer p.cleanInteractions()\<close>.
\<close>

definition ExecuteTest_loaded ::
  "'i extern \<Rightarrow> 't absent \<Rightarrow> 'i PluginProvider \<Rightarrow> ('t MockServerConfig \<Rightarrow> error option)
   \<Rightarrow> int \<Rightarrow> int \<Rightarrow> error option \<times> event list" where
  "ExecuteTest_loaded E A p integrationTest port clientPort =
     (let err = integrationTest
                  \<lparr>MockServerConfig.Port = clientPort,
                   MockServerConfig.Host = PluginProviderConfig.Host (config p),
                   TLSConfig = GetTLSConfigForTLSMockServer A\<rparr>
      in if err \<noteq> None then (err, [Call_integrationTest])
         else
           (case VerifyPlugin E port of
              ((res, mismatches), ev) \<Rightarrow>
                if \<not> res
                then (Some (PactValidationFailed res mismatches), Call_integrationTest # ev)
                else (case WritePact p of
                        (werr, ev') \<Rightarrow> (werr, Call_integrationTest # ev @ ev'))))"

text \<open>\<open>ExecuteTest_started\<close> is the body after \<^verbatim>\<open>defer native.CleanupPluginMockServer(port)\<close>.\<close>

definition ExecuteTest_started ::
  "'i extern \<Rightarrow> 't absent \<Rightarrow> 'i PluginProvider \<Rightarrow> ('t MockServerConfig \<Rightarrow> error option)
   \<Rightarrow> int \<Rightarrow> int \<Rightarrow> error option \<times> 'i PluginProvider \<times> event list" where
  "ExecuteTest_started E A p integrationTest port clientPort =
     (let err = waitForPort A port ''tcp'' ''localhost'' 10
      in if err \<noteq> None then (err, p, [])
         else
           (case AddPluginInteractions E port (Interactions p) of
              (err, ev) \<Rightarrow>
                if err \<noteq> None then (err, p, ev)
                else
                  (case ExecuteTest_loaded E A p integrationTest port clientPort of
                     (err, ev') \<Rightarrow>
                       (err, cleanInteractions p, ev @ ev' @ [Call_cleanInteractions]))))"

definition ExecuteTest ::
  "'i extern \<Rightarrow> 't absent \<Rightarrow> 'i PluginProvider \<Rightarrow> ('t MockServerConfig \<Rightarrow> error option)
   \<Rightarrow> error option \<times> 'i PluginProvider \<times> event list" where
  "ExecuteTest E A p integrationTest =
     (let port = PluginProviderConfig.Port (config p)
      in case CreatePluginMockServer E port ''test'' of
           ((clientPort, err), ev) \<Rightarrow>
             if err \<noteq> None then (err, p, ev)
             else
               (case ExecuteTest_started E A p integrationTest port clientPort of
                  (err, p', ev') \<Rightarrow>
                    (err, p', ev @ ev' @ snd (CleanupPluginMockServer E port))))"

subsection \<open>Reading the calls of a run\<close>

fun is_cleanup :: "32 word \<Rightarrow> event \<Rightarrow> bool" where
  "is_cleanup port (Call_cleanup_plugin_mock_server q r) = (q = port)"
| "is_cleanup port ev = False"

fun is_reset :: "event \<Rightarrow> bool" where
  "is_reset Call_cleanInteractions = True"
| "is_reset ev = False"

fun is_write_pact_file :: "event \<Rightarrow> bool" where
  "is_write_pact_file (Call_write_pact_file port dir r) = True"
| "is_write_pact_file ev = False"

subsection \<open>Engines, collaborators and providers used as examples\<close>

text \<open>
  The mismatch data of the examples, as the engine hands them over: the JSON text of an
  empty object, the JSON text of one mismatch, and a text that is not JSON. \<open>decode\<close> is
  \<^verbatim>\<open>json.Unmarshal\<close> into a \<^verbatim>\<open>PluginInteractionMismatch\<close> on these texts: the first has no
  field \<^verbatim>\<open>mismatches\<close> and leaves the value empty, the second fills it with its one entry,
  and any other text is answered with the error of the third, the only other text that the
  examples decode.
\<close>

definition quote :: "string \<Rightarrow> string" where
  "quote s = [CHR 0x22] @ s @ [CHR 0x22]"

definition one_mismatch_json :: string where
  "one_mismatch_json =
     ''{'' @ quote ''mismatches'' @ '':[{'' @
       quote ''actual'' @ '':'' @ quote '''' @ '','' @
       quote ''expected'' @ '':'' @ quote ''PING'' @ '','' @
       quote ''mismatch'' @ '':'' @ quote ''no PING'' @ ''}]}''"

definition decode :: "string \<Rightarrow> error + PluginInteractionMismatch" where
  "decode s =
     (if s = ''{}'' then Inr \<lparr>Mismatches = []\<rparr>
      else if s = one_mismatch_json
      then Inr \<lparr>Mismatches = [\<lparr>Actual = '''', Expected = ''PING'', Mismatch = ''no PING''\<rparr>]\<rparr>
      else Inl (Errorf (''invalid character '' @ [CHR 0x27] @ ''o'' @ [CHR 0x27] @
                        '' looking for beginning of value'')))"

text \<open>An engine that starts the mock server on port 50000 and reports a match.\<close>

definition engine :: "string extern" where
  "engine =
     \<lparr>create_plugin_mock_server = (\<lambda>port cmd. 50000),
      add_plugin_interaction = (\<lambda>port cfg. 0),
      plugin_mock_server_mismatches = (\<lambda>port. ''{}''),
      plugin_mock_server_matched = (\<lambda>port. 1),
      cleanup_plugin_mock_server = (\<lambda>port. 1),
      write_pact_file = (\<lambda>port dir. 0),
      json_Marshal = (\<lambda>xs. Inr (concat xs)),
      json_Unmarshal = decode\<rparr>"

text \<open>The same engine, reporting a match while its mismatch data hold one mismatch.\<close>

definition engine_with_mismatch :: "string extern" where
  "engine_with_mismatch =
     engine\<lparr>plugin_mock_server_mismatches := (\<lambda>port. one_mismatch_json)\<rparr>"

text \<open>The same engine, reporting no match.\<close>

definition engine_unmatched :: "string extern" where
  "engine_unmatched = engine\<lparr>plugin_mock_server_matched := (\<lambda>port. 0)\<rparr>"

text \<open>An engine that reports no match, with one mismatch in its mismatch data.\<close>

definition engine_unmatched_with_mismatch :: "string extern" where
  "engine_unmatched_with_mismatch =
     engine_with_mismatch\<lparr>plugin_mock_server_matched := (\<lambda>port. 0)\<rparr>"

text \<open>An engine that reports a match and hands over mismatch data that are not JSON.\<close>

definition engine_undecodable :: "string extern" where
  "engine_undecodable = engine\<lparr>plugin_mock_server_mismatches := (\<lambda>port. ''oops'')\<rparr>"

text \<open>The same engine, with interactions that cannot be marshalled.\<close>

definition engine_marshal_fails :: "string extern" where
  "engine_marshal_fails =
     engine\<lparr>json_Marshal := (\<lambda>xs. Inl (Errorf ''json: unsupported type''))\<rparr>"

definition ready :: "unit absent" where
  "ready = \<lparr>waitForPort = (\<lambda>port network host timeout. None),
            GetTLSConfigForTLSMockServer = ()\<rparr>"

definition timed_out :: "unit absent" where
  "timed_out =
     \<lparr>waitForPort = (\<lambda>port network host timeout.
         Some (Errorf ''Timed out waiting for plugin to start on port 4444:'')),
      GetTLSConfigForTLSMockServer = ()\<rparr>"

definition provider :: "string PluginProvider" where
  "provider =
     \<lparr>config = \<lparr>Consumer = ''consumer'', Provider = ''provider'', LogDir = ''/tmp/logs'',
                 PactDir = ''/tmp/pacts'', Host = ''127.0.0.1'', Port = 4444\<rparr>,
      Interactions = [''interaction'']\<rparr>"

definition passing :: "unit MockServerConfig \<Rightarrow> error option" where
  "passing cfg = None"

definition failing :: "unit MockServerConfig \<Rightarrow> error option" where
  "failing cfg = Some (Errorf ''consumer test failed'')"

text \<open>A working directory whose name holds a per cent sign, and an unset configuration.\<close>

definition sale :: os where
  "sale = \<lparr>Getwd = ''/tmp/50%off'', Clean = (\<lambda>path. path), Sprintf_other = (\<lambda>format. format),
           GetFreePort = (40001, None)\<rparr>"

definition home :: os where
  "home = \<lparr>Getwd = ''/home/pact'', Clean = (\<lambda>path. path), Sprintf_other = (\<lambda>format. format),
           GetFreePort = (40001, None)\<rparr>"

definition no_port :: os where
  "no_port = home\<lparr>GetFreePort := (0, Some (Errorf ''listen tcp: no free port''))\<rparr>"

definition unset :: PluginProviderConfig where
  "unset = \<lparr>Consumer = ''consumer'', Provider = ''provider'', LogDir = '''', PactDir = '''',
            Host = '''', Port = 0\<rparr>"

section \<open>The plugin mock server (examples/v3/plugin\_socket.go)\<close>

subsection \<open>Data\<close>

text \<open>
  \<^verbatim>\<open>type interaction struct { Message, Response, Delimeter string }\<close> and
  \<^verbatim>\<open>type interactions map[string]interaction\<close>.
  A Go map is modelled as an association list whose keys are distinct; the map is only ever
  written with \<open>AList.update\<close> and \<open>AList.delete\<close>, which keep the keys distinct. Go
  iterates over a map in an unspecified order; the model iterates in the order of the list,
  and every statement about the result of an iteration is made up to that order.
\<close>

record interaction =
  Message :: string
  Response :: string
  Delimeter :: string

type_synonym interactions = "(string \<times> interaction) list"

text \<open>
  \<^verbatim>\<open>type session struct { id string; interactions interactions;
      matchedInteractions []string; port int }\<close>
\<close>

record session =
  session_id :: string
  interactions :: interactions
  matchedInteractions :: "string list"
  port :: int

record mismatchDetail =
  Actual :: string
  Expected :: string
  Mismatch :: string

record mismatched =
  Mismatches :: "mismatchDetail list"

record sessionResponse =
  ID :: string
  Port :: int
  AdminPort :: int

record interactionsRequest =
  Interactions :: "interaction list"

text \<open>The constants \<^verbatim>\<open>adminPort = 4444\<close> and \<^verbatim>\<open>host\<close>, \<^verbatim>\<open>network\<close> of the file.\<close>

definition adminPort :: int where
  "adminPort = 4444"

definition StatusOK :: nat where
  "StatusOK = 200"

definition StatusBadRequest :: nat where
  "StatusBadRequest = 400"

definition StatusNotFound :: nat where
  "StatusNotFound = 404"

subsection \<open>The matcher\<close>

text \<open>
  \<^verbatim>\<open>func matchRequest(message string, s *session) string\<close>: the session is passed in and
  returned updated.
\<close>

definition matchRequest :: "string \<Rightarrow> session \<Rightarrow> string \<times> session" where
  "matchRequest message s =
     (case map_of (interactions s) message of
        Some response \<Rightarrow>
          (Response response,
           s\<lparr>matchedInteractions := matchedInteractions s @ [message]\<rparr>)
      | None \<Rightarrow> ('''', s))"

text \<open>
  \<^verbatim>\<open>func handleRequest(conn net.Conn, s *session)\<close>. The connection is the result of its one
  \<^verbatim>\<open>conn.Read(buf)\<close>: the bytes \<^verbatim>\<open>buf[:l]\<close> and the error, which is nil, \<^verbatim>\<open>io.EOF\<close> or
  another error. The function returns what it writes to the connection.
  \<^verbatim>\<open>strings.TrimSpace\<close> is the standard library's and is a parameter.
\<close>

datatype read_error = ReadNil | ReadEOF | ReadFailed

definition handleRequest ::
  "(string \<Rightarrow> string) \<Rightarrow> string \<times> read_error \<Rightarrow> session \<Rightarrow> string \<times> session" where
  "handleRequest TrimSpace conn s =
     (case conn of (buf, err) \<Rightarrow>
        if err \<noteq> ReadNil \<and> err \<noteq> ReadEOF then ('''', s)
        else matchRequest (TrimSpace buf) s)"

subsection \<open>The mismatch calculator\<close>

text \<open>
  \<^verbatim>\<open>func sessionMismatches(s *session) mismatched\<close>: three loops, the copy of the map, the
  deletion of every matched message, and one detail appended per entry left.
\<close>

definition sessionMismatches :: "session \<Rightarrow> mismatched" where
  "sessionMismatches s =
     (let mismatchedInteractions = fold (\<lambda>(k, v) m. AList.update k v m) (interactions s) [];
          mismatchedInteractions = fold AList.delete (matchedInteractions s) mismatchedInteractions
      in \<lparr>Mismatches =
            fold (\<lambda>(k, unmatched) res.
                    res @ [\<lparr>Actual = '''', Expected = Message unmatched,
                            Mismatch = ''expected message '' @ [CHR 0x27] @ Message unmatched
                                       @ [CHR 0x27] @ '', but got none''\<rparr>])
                 mismatchedInteractions []\<rparr>)"

subsection \<open>The admin control plane\<close>

text \<open>
  The global \<^verbatim>\<open>var sessions map[string]*session\<close> is a map from identifiers to sessions; a
  handler takes it and returns it updated. The answer to a request is the status written,
  with the body if there is one. \<^verbatim>\<open>c.JSON(status, body)\<close> writes both. \<^verbatim>\<open>c.BindJSON\<close> is
  gin's \<^verbatim>\<open>MustBindWith\<close>: when the body of the request binds it returns nil and writes
  nothing; when the body does not bind it aborts the request, which writes the status 400
  and no body, and then returns the error. \<^verbatim>\<open>c.BindJSON\<close>, \<^verbatim>\<open>uuid.New\<close> and
  \<^verbatim>\<open>utils.GetFreePort\<close> are not part of the file: what they return is given by the request.
\<close>

type_synonym sessions = "string \<rightharpoonup> session"

text \<open>
  \<^verbatim>\<open>func createSession(tcpSessions chan *session) func(*gin.Context)\<close>. \<open>bound\<close> says that
  \<^verbatim>\<open>c.BindJSON(&json) == nil\<close>, \<open>freePort\<close> is the port returned by
  \<^verbatim>\<open>utils.GetFreePort()\<close> (its error is dropped), \<open>uuid\<close> the string of \<^verbatim>\<open>uuid.New()\<close>.
  The result is the session map, the session sent on the channel, and the answer: that of
  \<^verbatim>\<open>c.JSON\<close> when the body binds, that of \<^verbatim>\<open>c.BindJSON\<close> when it does not.
\<close>

definition createSession ::
  "bool \<Rightarrow> int \<Rightarrow> string \<Rightarrow> sessions
   \<Rightarrow> sessions \<times> session option \<times> (nat \<times> sessionResponse option)" where
  "createSession bound freePort uuid sessions =
     (if bound then
        let port = freePort;
            id = uuid;
            session = \<lparr>session_id = id, interactions = [], matchedInteractions = [], port = port\<rparr>;
            response = \<lparr>ID = id, Port = port, AdminPort = 0\<rparr>
        in (sessions(id \<mapsto> session), Some session, (StatusOK, Some response))
      else (sessions, None, (StatusBadRequest, None)))"

text \<open>
  \<^verbatim>\<open>func loadInteractions(c *gin.Context)\<close>: \<open>body\<close> is the request bound by
  \<^verbatim>\<open>c.BindJSON\<close>, or \<open>None\<close> when binding fails and \<^verbatim>\<open>c.BindJSON\<close> has written the
  status 400. \<open>load\<close> is the part that replaces the interaction map of the session found.
  The result is the session map and the status written; no answer has a body.
\<close>

definition load :: "session \<Rightarrow> interactionsRequest \<Rightarrow> session" where
  "load session json =
     session\<lparr>interactions := fold (\<lambda>v m. AList.update (Message v) v m) (Interactions json) []\<rparr>"

definition loadInteractions ::
  "string \<Rightarrow> interactionsRequest option \<Rightarrow> sessions \<Rightarrow> sessions \<times> nat" where
  "loadInteractions id' body sessions =
     (case sessions id' of
        Some session \<Rightarrow>
          (case body of
             Some json \<Rightarrow> (sessions(id' \<mapsto> load session json), StatusOK)
           | None \<Rightarrow> (sessions, StatusBadRequest))
      | None \<Rightarrow> (sessions, StatusNotFound))"

text \<open>\<^verbatim>\<open>func mismatches(c *gin.Context)\<close>\<close>

definition mismatches :: "string \<Rightarrow> sessions \<Rightarrow> nat \<times> mismatched option" where
  "mismatches id' sessions =
     (case sessions id' of
        Some session \<Rightarrow> (StatusOK, Some (sessionMismatches session))
      | None \<Rightarrow> (StatusNotFound, None))"

subsection \<open>The sessions the server can hold\<close>

text \<open>
  A session is created by \<open>createSession\<close> and afterwards changed only by
  \<open>loadInteractions\<close> and by \<open>matchRequest\<close>.
\<close>

inductive reachable :: "session \<Rightarrow> bool" where
  created: "reachable \<lparr>session_id = i, interactions = [], matchedInteractions = [], port = p\<rparr>"
| loaded: "reachable s \<Longrightarrow> reachable (load s json)"
| matched: "reachable s \<Longrightarrow> reachable (snd (matchRequest message s))"

definition keys :: "session \<Rightarrow> string set" where
  "keys s = fst ` set (interactions s)"

text \<open>The detail reported for an expected message that was never matched.\<close>

definition missing :: "string \<Rightarrow> mismatchDetail" where
  "missing message =
     \<lparr>Actual = '''', Expected = message,
      Mismatch = ''expected message '' @ [CHR 0x27] @ message @ [CHR 0x27] @ '', but got none''\<rparr>"

subsection \<open>Sessions and requests used as examples\<close>

definition ping :: interaction where
  "ping = \<lparr>Message = ''PING'', Response = ''PONG'', Delimeter = ''''\<rparr>"

definition hello :: interaction where
  "hello = \<lparr>Message = ''HELLO'', Response = ''WORLD'', Delimeter = ''''\<rparr>"

definition fresh :: session where
  "fresh = \<lparr>session_id = ''s1'', interactions = [], matchedInteractions = [], port = 40000\<rparr>"

text \<open>
  \<^verbatim>\<open>strings.TrimSpace\<close> on a text of ASCII bytes: the white space taken from both ends is
  tab, line feed, vertical tab, form feed, carriage return and space.
\<close>

definition asciiSpace :: "char \<Rightarrow> bool" where
  "asciiSpace c = (c = CHR 0x09 \<or> c = CHR 0x0A \<or> c = CHR 0x0B \<or> c = CHR 0x0C \<or>
                   c = CHR 0x0D \<or> c = CHR '' '')"

definition trim :: "string \<Rightarrow> string" where
  "trim xs = rev (dropWhile asciiSpace (rev (dropWhile asciiSpace xs)))"


section \<open>Properties of the plugin provider\<close>

subsection \<open>The calls of a run\<close>

lemma events_ExecuteTest_loaded:
  "filter (is_cleanup q) (snd (ExecuteTest_loaded E A p t pt clientPort)) = [] \<and>
   filter is_reset (snd (ExecuteTest_loaded E A p t pt clientPort)) = [] \<and>
   filter is_write_pact_file (snd (ExecuteTest_loaded E A p t pt clientPort)) = []"
  by (auto simp: ExecuteTest_loaded_def VerifyPlugin_def PluginMockServerMismatchedRequests_def
        WritePact_def Let_def split: prod.splits sum.splits)

lemma events_AddPluginInteractions:
  "filter (is_cleanup q) (snd (AddPluginInteractions E pt xs)) = [] \<and>
   filter is_reset (snd (AddPluginInteractions E pt xs)) = [] \<and>
   filter is_write_pact_file (snd (AddPluginInteractions E pt xs)) = []"
  by (simp add: AddPluginInteractions_def split: sum.splits)

lemma AddPluginInteractions_error:
  "(fst (AddPluginInteractions E pt xs) \<noteq> None) = isl (json_Marshal E xs)"
  by (simp add: AddPluginInteractions_def split: sum.splits)

lemma events_ExecuteTest_started:
  "filter (is_cleanup q) (snd (snd (ExecuteTest_started E A p t pt clientPort))) = [] \<and>
   filter is_write_pact_file (snd (snd (ExecuteTest_started E A p t pt clientPort))) = []"
proof -
  obtain e1 ev1 where a: "AddPluginInteractions E pt (PluginProvider.Interactions p) = (e1, ev1)"
    by (cases "AddPluginInteractions E pt (PluginProvider.Interactions p)") auto
  obtain e2 ev2 where l: "ExecuteTest_loaded E A p t pt clientPort = (e2, ev2)"
    by (cases "ExecuteTest_loaded E A p t pt clientPort") auto
  from events_AddPluginInteractions [of q E pt "PluginProvider.Interactions p"] a
  have 1: "filter (is_cleanup q) ev1 = []" "filter is_write_pact_file ev1 = []" by simp_all
  from events_ExecuteTest_loaded [of q E A p t pt clientPort] l
  have 2: "filter (is_cleanup q) ev2 = []" "filter is_write_pact_file ev2 = []" by simp_all
  show ?thesis
    by (simp add: ExecuteTest_started_def Let_def a l 1 2)
qed

lemma ExecuteTest_started_reset:
  assumes "waitForPort A pt ''tcp'' ''localhost'' 10 = None"
    and "\<not> isl (json_Marshal E (PluginProvider.Interactions p))"
  shows "length (filter is_reset (snd (snd (ExecuteTest_started E A p t pt clientPort)))) = 1 \<and>
         fst (snd (ExecuteTest_started E A p t pt clientPort)) = cleanInteractions p"
proof -
  obtain e1 ev1 where a: "AddPluginInteractions E pt (PluginProvider.Interactions p) = (e1, ev1)"
    by (cases "AddPluginInteractions E pt (PluginProvider.Interactions p)") auto
  obtain e2 ev2 where l: "ExecuteTest_loaded E A p t pt clientPort = (e2, ev2)"
    by (cases "ExecuteTest_loaded E A p t pt clientPort") auto
  from AddPluginInteractions_error [of E pt "PluginProvider.Interactions p"] a assms(2)
  have e: "e1 = None" by simp
  from events_AddPluginInteractions [of q E pt "PluginProvider.Interactions p"] a
  have 1: "filter is_reset ev1 = []" by simp
  from events_ExecuteTest_loaded [of q E A p t pt clientPort] l
  have 2: "filter is_reset ev2 = []" by simp
  show ?thesis
    by (simp add: ExecuteTest_started_def Let_def a l e 1 2 assms(1))
qed

lemma ExecuteTest_unfold:
  "ExecuteTest E A p t =
     (case ExecuteTest_started E A p t (PluginProviderConfig.Port (config p))
             (Go_int (create_plugin_mock_server E (C_int (PluginProviderConfig.Port (config p))) ''test'')) of
        (err, p', ev') \<Rightarrow>
          (err, p',
           Call_create_plugin_mock_server (C_int (PluginProviderConfig.Port (config p))) ''test''
             (create_plugin_mock_server E (C_int (PluginProviderConfig.Port (config p))) ''test'')
           # ev' @
           [Call_cleanup_plugin_mock_server (C_int (PluginProviderConfig.Port (config p)))
              (cleanup_plugin_mock_server E (C_int (PluginProviderConfig.Port (config p))))]))"
  by (simp add: ExecuteTest_def CreatePluginMockServer_def CleanupPluginMockServer_def Let_def
        split: prod.splits)

text \<open>
  What every run does make: the cleanup for the admin port, once and as its last call; and,
  when the wait for the port and the marshalling of the interactions succeed, the reset,
  once, leaving the interaction list empty and the configuration as it was.
\<close>

lemma ExecuteTest_cleanup_and_reset:
  "length (filter (is_cleanup (C_int (PluginProviderConfig.Port (config p))))
             (snd (snd (ExecuteTest E A p integrationTest)))) = 1 \<and>
   last (snd (snd (ExecuteTest E A p integrationTest))) =
     Call_cleanup_plugin_mock_server (C_int (PluginProviderConfig.Port (config p)))
       (cleanup_plugin_mock_server E (C_int (PluginProviderConfig.Port (config p)))) \<and>
   (waitForPort A (PluginProviderConfig.Port (config p)) ''tcp'' ''localhost'' 10 = None \<and>
    \<not> isl (json_Marshal E (PluginProvider.Interactions p)) \<longrightarrow>
      length (filter is_reset (snd (snd (ExecuteTest E A p integrationTest)))) = 1 \<and>
      PluginProvider.Interactions (fst (snd (ExecuteTest E A p integrationTest))) = [] \<and>
      config (fst (snd (ExecuteTest E A p integrationTest))) = config p)"
proof -
  let ?pt = "PluginProviderConfig.Port (config p)"
  let ?client = "Go_int (create_plugin_mock_server E (C_int ?pt) ''test'')"
  obtain err p' ev' where s: "ExecuteTest_started E A p integrationTest ?pt ?client = (err, p', ev')"
    by (cases "ExecuteTest_started E A p integrationTest ?pt ?client") auto
  from events_ExecuteTest_started [of "C_int ?pt" E A p integrationTest ?pt ?client] s
  have c: "filter (is_cleanup (C_int ?pt)) ev' = []" by simp
  have "waitForPort A ?pt ''tcp'' ''localhost'' 10 = None \<Longrightarrow>
        \<not> isl (json_Marshal E (PluginProvider.Interactions p)) \<Longrightarrow>
        length (filter is_reset ev') = 1 \<and> p' = cleanInteractions p"
    using ExecuteTest_started_reset [of A ?pt E p integrationTest ?client] s by simp
  with c s show ?thesis
    by (simp add: ExecuteTest_unfold cleanInteractions_def)
qed

lemma ExecuteTest_cleanup_and_reset_runs:
  "length (filter (is_cleanup 4444) (snd (snd (ExecuteTest engine_unmatched ready provider passing)))) = 1 \<and>
   length (filter is_reset (snd (snd (ExecuteTest engine_unmatched ready provider passing)))) = 1 \<and>
   PluginProvider.Interactions (fst (snd (ExecuteTest engine_unmatched ready provider passing))) = [] \<and>
   length (filter (is_cleanup 4444) (snd (snd (ExecuteTest engine ready provider failing)))) = 1 \<and>
   length (filter is_reset (snd (snd (ExecuteTest engine ready provider failing)))) = 1 \<and>
   PluginProvider.Interactions (fst (snd (ExecuteTest engine ready provider failing))) = [] \<and>
   length (filter (is_cleanup 4444) (snd (snd (ExecuteTest engine timed_out provider passing)))) = 1"
proof -
  have p: "C_int (PluginProviderConfig.Port (config provider)) = 4444"
    by (simp add: provider_def C_int_def)
  have w: "waitForPort ready (PluginProviderConfig.Port (config provider)) ''tcp'' ''localhost'' 10 = None"
    by (simp add: ready_def)
  have m: "\<not> isl (json_Marshal engine (PluginProvider.Interactions provider))"
    "\<not> isl (json_Marshal engine_unmatched (PluginProvider.Interactions provider))"
    by (simp_all add: engine_def engine_unmatched_def)
  show ?thesis
    using ExecuteTest_cleanup_and_reset [of provider engine_unmatched ready passing]
      ExecuteTest_cleanup_and_reset [of provider engine ready failing]
      ExecuteTest_cleanup_and_reset [of provider engine timed_out passing]
      p w m
    by simp
qed


subsection \<open>Cleanup and reset\<close>

text \<open>
  Claim C1: every run of \<open>ExecuteTest\<close> makes the cleanup of the mock server and the reset
  of the interaction list once each, whatever the exit, so that the interaction list is
  empty when it returns. The code at a run whose wait for the port times out, and at a run
  whose interactions cannot be marshalled: each returns before
  \<^verbatim>\<open>defer p.cleanInteractions()\<close> is reached, the reset is not made and the provider keeps
  its interaction.
\<close>

theorem ExecuteTest_timeout_keeps_interactions:
  "fst (ExecuteTest engine timed_out provider passing) =
     Some (Errorf ''Timed out waiting for plugin to start on port 4444:'') \<and>
   PluginProvider.Interactions (fst (snd (ExecuteTest engine timed_out provider passing))) =
     [''interaction''] \<and>
   filter is_reset (snd (snd (ExecuteTest engine timed_out provider passing))) = [] \<and>
   fst (ExecuteTest engine_marshal_fails ready provider passing) =
     Some (Errorf ''json: unsupported type'') \<and>
   PluginProvider.Interactions (fst (snd (ExecuteTest engine_marshal_fails ready provider passing))) =
     [''interaction''] \<and>
   filter is_reset (snd (snd (ExecuteTest engine_marshal_fails ready provider passing))) = []"
  by (simp add: ExecuteTest_unfold ExecuteTest_started_def AddPluginInteractions_def
        engine_marshal_fails_def engine_def timed_out_def ready_def provider_def)

subsection \<open>Starting the mock server\<close>

text \<open>
  Claim C9: \<open>CreatePluginMockServer\<close> returns no error, whatever the port, the command and
  the engine's answer, and its first result is the engine's answer read as an \<^verbatim>\<open>int\<close>. So
  \<open>ExecuteTest\<close> never takes the branch that returns the error of the start: every run is
  the start, the body after it, and the deferred cleanup.
\<close>

theorem CreatePluginMockServer_no_error:
  "snd (fst (CreatePluginMockServer E pt cmd)) = None \<and>
   fst (fst (CreatePluginMockServer E pt cmd)) = Go_int (create_plugin_mock_server E (C_int pt) cmd) \<and>
   ExecuteTest E A p integrationTest =
     (case ExecuteTest_started E A p integrationTest (PluginProviderConfig.Port (config p))
             (fst (fst (CreatePluginMockServer E (PluginProviderConfig.Port (config p)) ''test''))) of
        (err, p', ev') \<Rightarrow>
          (err, p',
           snd (CreatePluginMockServer E (PluginProviderConfig.Port (config p)) ''test'') @ ev' @
           snd (CleanupPluginMockServer E (PluginProviderConfig.Port (config p)))))"
  by (simp add: ExecuteTest_def CreatePluginMockServer_def Let_def split: prod.splits)

subsection \<open>Loading the interactions\<close>

lemma VerifyPlugin_add:
  "VerifyPlugin (E\<lparr>add_plugin_interaction := f\<rparr>) pt = VerifyPlugin E pt"
  by (simp add: VerifyPlugin_def PluginMockServerMismatchedRequests_def)

lemma ExecuteTest_loaded_add:
  "ExecuteTest_loaded (E\<lparr>add_plugin_interaction := f\<rparr>) A p t pt clientPort =
   ExecuteTest_loaded E A p t pt clientPort"
  by (simp add: ExecuteTest_loaded_def VerifyPlugin_add Let_def)

lemma ExecuteTest_started_add:
  "fst (ExecuteTest_started (E\<lparr>add_plugin_interaction := f\<rparr>) A p t pt clientPort) =
     fst (ExecuteTest_started E A p t pt clientPort) \<and>
   fst (snd (ExecuteTest_started (E\<lparr>add_plugin_interaction := f\<rparr>) A p t pt clientPort)) =
     fst (snd (ExecuteTest_started E A p t pt clientPort))"
  by (simp add: ExecuteTest_started_def ExecuteTest_loaded_add AddPluginInteractions_def Let_def
        split: prod.splits sum.splits)

text \<open>
  Claim C10: \<open>AddPluginInteractions\<close> returns an error exactly when \<^verbatim>\<open>json.Marshal\<close> fails.
  What the engine returns from \<^verbatim>\<open>add_plugin_interaction\<close> changes neither that error nor
  the error and the provider that \<open>ExecuteTest\<close> returns.
\<close>

theorem AddPluginInteractions_error_iff_marshal:
  "(fst (AddPluginInteractions E pt xs) \<noteq> None) = isl (json_Marshal E xs) \<and>
   fst (AddPluginInteractions (E\<lparr>add_plugin_interaction := f\<rparr>) pt xs) =
     fst (AddPluginInteractions E pt xs) \<and>
   fst (ExecuteTest (E\<lparr>add_plugin_interaction := f\<rparr>) A p integrationTest) =
     fst (ExecuteTest E A p integrationTest) \<and>
   fst (snd (ExecuteTest (E\<lparr>add_plugin_interaction := f\<rparr>) A p integrationTest)) =
     fst (snd (ExecuteTest E A p integrationTest))"
proof -
  have "fst (AddPluginInteractions (E\<lparr>add_plugin_interaction := f\<rparr>) pt xs) =
          fst (AddPluginInteractions E pt xs)"
    by (simp add: AddPluginInteractions_def split: sum.splits)
  moreover have "fst (ExecuteTest (E\<lparr>add_plugin_interaction := f\<rparr>) A p integrationTest) =
     fst (ExecuteTest E A p integrationTest) \<and>
   fst (snd (ExecuteTest (E\<lparr>add_plugin_interaction := f\<rparr>) A p integrationTest)) =
     fst (snd (ExecuteTest E A p integrationTest))"
    using ExecuteTest_started_add [where E = E and f = f and A = A and p = p and t = integrationTest
        and pt = "PluginProviderConfig.Port (config p)"
        and clientPort = "Go_int (create_plugin_mock_server E (C_int (PluginProviderConfig.Port (config p))) ''test'')"]
    by (simp add: ExecuteTest_unfold split_beta)
  moreover note AddPluginInteractions_error [of E pt xs]
  ultimately show ?thesis
    by (simp only: simp_thms)
qed

subsection \<open>Writing the pact\<close>

text \<open>
  Claim C6: \<open>WritePact\<close> is to write the contract through the engine's operation that writes
  the pact file. The code: \<open>WritePact\<close> returns nil and calls nothing, so no run of
  \<open>ExecuteTest\<close> calls \<^verbatim>\<open>write_pact_file\<close>, as the calls of a run that passes show;
  \<open>WritePactFile\<close> of package native, which makes that call, is not used.
\<close>

theorem WritePact_calls_nothing:
  "WritePact p = (None, []) \<and>
   filter is_write_pact_file (snd (snd (ExecuteTest E A p integrationTest))) = [] \<and>
   ExecuteTest engine ready provider passing =
     (None, provider\<lparr>PluginProvider.Interactions := []\<rparr>,
      [Call_create_plugin_mock_server 4444 ''test'' 50000,
       Call_add_plugin_interaction 4444 ''interaction'' 0,
       Call_integrationTest,
       Call_plugin_mock_server_matched 4444 1,
       Call_plugin_mock_server_mismatches 4444 ''{}'',
       Call_cleanInteractions,
       Call_cleanup_plugin_mock_server 4444 1]) \<and>
   snd (WritePactFile engine 4444 ''/tmp/pacts'') = [Call_write_pact_file 4444 ''/tmp/pacts'' 0]"
proof -
  have "filter is_write_pact_file (snd (snd (ExecuteTest E A p integrationTest))) = []"
    using events_ExecuteTest_started [of "C_int (PluginProviderConfig.Port (config p))" E A p integrationTest
        "PluginProviderConfig.Port (config p)"
        "Go_int (create_plugin_mock_server E (C_int (PluginProviderConfig.Port (config p))) ''test'')"]
    by (simp add: ExecuteTest_unfold split_beta)
  moreover have "ExecuteTest engine ready provider passing =
     (None, provider\<lparr>PluginProvider.Interactions := []\<rparr>,
      [Call_create_plugin_mock_server 4444 ''test'' 50000,
       Call_add_plugin_interaction 4444 ''interaction'' 0,
       Call_integrationTest,
       Call_plugin_mock_server_matched 4444 1,
       Call_plugin_mock_server_mismatches 4444 ''{}'',
       Call_cleanInteractions,
       Call_cleanup_plugin_mock_server 4444 1])"
    by (simp add: ExecuteTest_unfold ExecuteTest_started_def ExecuteTest_loaded_def
        AddPluginInteractions_def VerifyPlugin_def PluginMockServerMismatchedRequests_def
        WritePact_def cleanInteractions_def engine_def ready_def provider_def passing_def
        C_int_def Go_int_def decode_def)
  moreover have "snd (WritePactFile engine 4444 ''/tmp/pacts'') = [Call_write_pact_file 4444 ''/tmp/pacts'' 0]"
    by (simp add: WritePactFile_def engine_def C_int_def Let_def)
  ultimately show ?thesis by (simp add: WritePact_def)
qed

subsection \<open>Verification\<close>

lemma VerifyPlugin_data:
  "fst (VerifyPlugin E pt) =
     (case json_Unmarshal E (plugin_mock_server_mismatches E (C_int pt)) of
        Inl err \<Rightarrow> (False, \<lparr>PluginInteractionMismatch.Mismatches = []\<rparr>)
      | Inr decoded \<Rightarrow> (Go_int (plugin_mock_server_matched E (C_int pt)) = 1, decoded))"
  by (simp add: VerifyPlugin_def PluginMockServerMismatchedRequests_def Let_def
        split: sum.splits)

lemma VerifyPlugin_result:
  "fst (fst (VerifyPlugin E pt)) =
     (Go_int (plugin_mock_server_matched E (C_int pt)) = 1 \<and>
      \<not> isl (json_Unmarshal E (plugin_mock_server_mismatches E (C_int pt))))"
  by (auto simp: VerifyPlugin_data split: sum.splits)

lemma ExecuteTest_loaded_error:
  assumes "t \<lparr>MockServerConfig.Port = clientPort,
              MockServerConfig.Host = PluginProviderConfig.Host (config p),
              TLSConfig = GetTLSConfigForTLSMockServer A\<rparr> = None"
  shows "fst (ExecuteTest_loaded E A p t pt clientPort) =
           (if fst (fst (VerifyPlugin E pt)) then None
            else Some (PactValidationFailed False (snd (fst (VerifyPlugin E pt)))))"
  using assms
  by (auto simp: ExecuteTest_loaded_def WritePact_def Let_def split: prod.splits)

text \<open>
  Claim C5, as stated, fails: the engine reports a match and hands over the JSON text of one
  mismatch, which \<^verbatim>\<open>json.Unmarshal\<close> decodes to that mismatch; \<open>VerifyPlugin\<close> returns the
  positive result with the mismatch, the callback passes, and \<open>ExecuteTest\<close> returns no
  error.
\<close>

theorem verification_passes_with_mismatches:
  "plugin_mock_server_matched engine_with_mismatch 4444 = 1 \<and>
   plugin_mock_server_mismatches engine_with_mismatch 4444 =
     ''{'' @ quote ''mismatches'' @ '':[{'' @
       quote ''actual'' @ '':'' @ quote '''' @ '','' @
       quote ''expected'' @ '':'' @ quote ''PING'' @ '','' @
       quote ''mismatch'' @ '':'' @ quote ''no PING'' @ ''}]}'' \<and>
   fst (VerifyPlugin engine_with_mismatch 4444) =
     (True, \<lparr>PluginInteractionMismatch.Mismatches =
               [\<lparr>PluginInteractionMismatchDetail.Actual = '''',
                 PluginInteractionMismatchDetail.Expected = ''PING'',
                 PluginInteractionMismatchDetail.Mismatch = ''no PING''\<rparr>]\<rparr>) \<and>
   passing \<lparr>MockServerConfig.Port = 50000, MockServerConfig.Host = ''127.0.0.1'', TLSConfig = ()\<rparr> = None \<and>
   fst (ExecuteTest engine_with_mismatch ready provider passing) = None"
  by (simp add: ExecuteTest_unfold ExecuteTest_started_def ExecuteTest_loaded_def
        AddPluginInteractions_def VerifyPlugin_def PluginMockServerMismatchedRequests_def
        WritePact_def cleanInteractions_def engine_with_mismatch_def engine_def ready_def
        provider_def passing_def C_int_def Go_int_def decode_def one_mismatch_json_def quote_def)

text \<open>
  Claim C5, amended: in a run that reaches the verification (the port is ready, the
  interactions are marshalled, the callback returns nil), \<open>ExecuteTest\<close> returns an error
  exactly when the result of \<open>VerifyPlugin\<close> is negative, that is, when the engine's
  \<^verbatim>\<open>plugin_mock_server_matched\<close> is not 1 or the engine's mismatch data cannot be decoded.
  The error carries the negative result and the mismatch data: the data decoded from what
  the engine handed over when they can be decoded, and empty data when they cannot.
  Mismatches in the data decoded do not make an error when the engine's result is 1. No
  pact file is written in the run.
\<close>

theorem ExecuteTest_verification:
  assumes "waitForPort A (PluginProviderConfig.Port (config p)) ''tcp'' ''localhost'' 10 = None"
    and "\<not> isl (json_Marshal E (PluginProvider.Interactions p))"
    and "integrationTest
           \<lparr>MockServerConfig.Port =
              Go_int (create_plugin_mock_server E (C_int (PluginProviderConfig.Port (config p))) ''test''),
            MockServerConfig.Host = PluginProviderConfig.Host (config p),
            TLSConfig = GetTLSConfigForTLSMockServer A\<rparr> = None"
  shows "fst (ExecuteTest E A p integrationTest) =
           (case json_Unmarshal E
                   (plugin_mock_server_mismatches E (C_int (PluginProviderConfig.Port (config p)))) of
              Inl err \<Rightarrow>
                Some (PactValidationFailed False \<lparr>PluginInteractionMismatch.Mismatches = []\<rparr>)
            | Inr decoded \<Rightarrow>
                if Go_int (plugin_mock_server_matched E
                             (C_int (PluginProviderConfig.Port (config p)))) = 1
                then None
                else Some (PactValidationFailed False decoded)) \<and>
         (fst (ExecuteTest E A p integrationTest) \<noteq> None) =
           (\<not> fst (fst (VerifyPlugin E (PluginProviderConfig.Port (config p))))) \<and>
         fst (VerifyPlugin E (PluginProviderConfig.Port (config p))) =
           (case json_Unmarshal E
                   (plugin_mock_server_mismatches E (C_int (PluginProviderConfig.Port (config p)))) of
              Inl err \<Rightarrow> (False, \<lparr>PluginInteractionMismatch.Mismatches = []\<rparr>)
            | Inr decoded \<Rightarrow>
                (Go_int (plugin_mock_server_matched E
                           (C_int (PluginProviderConfig.Port (config p)))) = 1, decoded)) \<and>
         (\<not> fst (fst (VerifyPlugin E (PluginProviderConfig.Port (config p)))) \<longrightarrow>
            fst (ExecuteTest E A p integrationTest) =
              Some (PactValidationFailed False
                      (snd (fst (VerifyPlugin E (PluginProviderConfig.Port (config p))))))) \<and>
         filter is_write_pact_file (snd (snd (ExecuteTest E A p integrationTest))) = []"
proof -
  let ?pt = "PluginProviderConfig.Port (config p)"
  let ?client = "Go_int (create_plugin_mock_server E (C_int ?pt) ''test'')"
  have a: "fst (AddPluginInteractions E ?pt (PluginProvider.Interactions p)) = None"
    using AddPluginInteractions_error [of E ?pt "PluginProvider.Interactions p"] assms(2) by simp
  have "fst (ExecuteTest E A p integrationTest) =
          fst (ExecuteTest_loaded E A p integrationTest ?pt ?client)"
    using a assms(1)
    by (simp add: ExecuteTest_unfold ExecuteTest_started_def Let_def split_beta)
  then have e: "fst (ExecuteTest E A p integrationTest) =
           (if fst (fst (VerifyPlugin E ?pt)) then None
            else Some (PactValidationFailed False (snd (fst (VerifyPlugin E ?pt)))))"
    using ExecuteTest_loaded_error [where t = integrationTest and clientPort = ?client
        and p = p and A = A and E = E and pt = ?pt] assms(3)
    by simp
  have w: "filter is_write_pact_file (snd (snd (ExecuteTest E A p integrationTest))) = []"
    using events_ExecuteTest_started [of "C_int ?pt" E A p integrationTest ?pt ?client]
    by (simp add: ExecuteTest_unfold split_beta)
  show ?thesis
  proof (cases "json_Unmarshal E (plugin_mock_server_mismatches E (C_int ?pt))")
    case (Inl err)
    with e w VerifyPlugin_data [of E ?pt] show ?thesis by simp
  next
    case (Inr decoded)
    with e w VerifyPlugin_data [of E ?pt] show ?thesis by simp
  qed
qed

theorem ExecuteTest_verification_witness:
  "fst (ExecuteTest engine ready provider passing) = None \<and>
   fst (ExecuteTest engine_unmatched ready provider passing) =
     Some (PactValidationFailed False \<lparr>PluginInteractionMismatch.Mismatches = []\<rparr>) \<and>
   fst (ExecuteTest engine_unmatched_with_mismatch ready provider passing) =
     Some (PactValidationFailed False
             \<lparr>PluginInteractionMismatch.Mismatches =
                [\<lparr>PluginInteractionMismatchDetail.Actual = '''',
                  PluginInteractionMismatchDetail.Expected = ''PING'',
                  PluginInteractionMismatchDetail.Mismatch = ''no PING''\<rparr>]\<rparr>) \<and>
   fst (ExecuteTest engine_undecodable ready provider passing) =
     Some (PactValidationFailed False \<lparr>PluginInteractionMismatch.Mismatches = []\<rparr>) \<and>
   filter is_write_pact_file (snd (snd (ExecuteTest engine_unmatched ready provider passing))) = []"
proof -
  have w: "waitForPort ready (PluginProviderConfig.Port (config provider)) ''tcp'' ''localhost'' 10 = None"
    by (simp add: ready_def)
  have m: "\<not> isl (json_Marshal engine (PluginProvider.Interactions provider))"
    "\<not> isl (json_Marshal engine_unmatched (PluginProvider.Interactions provider))"
    "\<not> isl (json_Marshal engine_unmatched_with_mismatch (PluginProvider.Interactions provider))"
    "\<not> isl (json_Marshal engine_undecodable (PluginProvider.Interactions provider))"
    by (simp_all add: engine_def engine_unmatched_def engine_unmatched_with_mismatch_def
          engine_with_mismatch_def engine_undecodable_def)
  have t: "passing cfg = None" for cfg by (simp add: passing_def)
  have d: "json_Unmarshal engine (plugin_mock_server_mismatches engine q) =
             Inr \<lparr>PluginInteractionMismatch.Mismatches = []\<rparr>"
    "json_Unmarshal engine_unmatched (plugin_mock_server_mismatches engine_unmatched q) =
             Inr \<lparr>PluginInteractionMismatch.Mismatches = []\<rparr>"
    "json_Unmarshal engine_unmatched_with_mismatch
         (plugin_mock_server_mismatches engine_unmatched_with_mismatch q) =
             Inr \<lparr>PluginInteractionMismatch.Mismatches =
                [\<lparr>PluginInteractionMismatchDetail.Actual = '''',
                  PluginInteractionMismatchDetail.Expected = ''PING'',
                  PluginInteractionMismatchDetail.Mismatch = ''no PING''\<rparr>]\<rparr>"
    "json_Unmarshal engine_undecodable (plugin_mock_server_mismatches engine_undecodable q) =
             Inl (Errorf (''invalid character '' @ [CHR 0x27] @ ''o'' @ [CHR 0x27] @
                          '' looking for beginning of value''))"
    for q
    by (simp_all add: engine_def engine_unmatched_def engine_unmatched_with_mismatch_def
          engine_with_mismatch_def engine_undecodable_def decode_def one_mismatch_json_def
          quote_def)
  have g: "Go_int (plugin_mock_server_matched engine q) = 1"
    "Go_int (plugin_mock_server_matched engine_unmatched q) = 0"
    "Go_int (plugin_mock_server_matched engine_unmatched_with_mismatch q) = 0"
    for q
    by (simp_all add: engine_def engine_unmatched_def engine_unmatched_with_mismatch_def
          engine_with_mismatch_def Go_int_def)
  show ?thesis
    using ExecuteTest_verification [where A = ready and p = provider and E = engine
        and integrationTest = passing, OF w m(1) t]
      ExecuteTest_verification [where A = ready and p = provider and E = engine_unmatched
        and integrationTest = passing, OF w m(2) t]
      ExecuteTest_verification [where A = ready and p = provider
        and E = engine_unmatched_with_mismatch and integrationTest = passing, OF w m(3) t]
      ExecuteTest_verification [where A = ready and p = provider and E = engine_undecodable
        and integrationTest = passing, OF w m(4) t]
      d g
    by simp
qed

subsection \<open>Configuration\<close>

text \<open>
  What \<open>validateConfig\<close> does to each field, when it returns an error, and that a second
  validation changes nothing once the port is positive and the directories are set.
\<close>

lemma Sprintf_plain: "CHR ''%'' \<notin> set format \<Longrightarrow> Sprintf other format = format"
  by (induction other format rule: Sprintf.induct) auto

lemma validateConfig_fields:
  assumes "validateConfig os p = (err, p')"
  shows "PluginProviderConfig.Host (config p') =
           (if PluginProviderConfig.Host (config p) = '''' then ''127.0.0.1''
            else PluginProviderConfig.Host (config p))"
    and "LogDir (config p') =
           (if LogDir (config p) = ''''
            then Sprintf (Sprintf_other os) (filepath_Join (Clean os) (Getwd os) ''logs'')
            else LogDir (config p))"
    and "PactDir (config p') =
           (if PactDir (config p) = ''''
            then Sprintf (Sprintf_other os) (filepath_Join (Clean os) (Getwd os) ''pacts'')
            else PactDir (config p))"
    and "PluginProviderConfig.Port (config p') =
           (if PluginProviderConfig.Port (config p) \<le> 0 then fst (GetFreePort os)
            else PluginProviderConfig.Port (config p))"
    and "(err \<noteq> None) = (PluginProviderConfig.Port (config p) \<le> 0 \<and> snd (GetFreePort os) \<noteq> None)"
    and "Consumer (config p') = Consumer (config p)"
    and "Provider (config p') = Provider (config p)"
    and "PluginProvider.Interactions p' = PluginProvider.Interactions p"
  using assms
  by (auto simp: validateConfig_def Let_def split: if_splits prod.splits)

lemma validateConfig_idempotent:
  assumes "validateConfig os p = (None, p')"
    and "0 < PluginProviderConfig.Port (config p')"
    and "LogDir (config p') \<noteq> ''''" and "PactDir (config p') \<noteq> ''''"
  shows "validateConfig os' p' = (None, p')"
proof -
  have "PluginProviderConfig.Host (config p') \<noteq> ''''"
    using validateConfig_fields(1) [OF assms(1)] by (simp split: if_splits)
  with assms(2-4) show ?thesis
    by (simp add: validateConfig_def Let_def)
qed

lemma validateConfig_home:
  "validateConfig home \<lparr>config = unset, PluginProvider.Interactions = ([] :: string list)\<rparr> =
     (None,
      \<lparr>config = unset\<lparr>LogDir := ''/home/pact/logs'', PactDir := ''/home/pact/pacts'',
                        PluginProviderConfig.Host := ''127.0.0.1'',
                        PluginProviderConfig.Port := 40001\<rparr>,
       PluginProvider.Interactions = []\<rparr>)"
  by (simp add: validateConfig_def filepath_Join_def home_def unset_def Let_def)

lemma validateConfig_no_port:
  "fst (validateConfig no_port \<lparr>config = unset, PluginProvider.Interactions = ([] :: string list)\<rparr>) =
     Some (Errorf ''error: unable to find free port, mock server will fail to start'')"
  by (simp add: validateConfig_def filepath_Join_def no_port_def home_def unset_def Let_def)

text \<open>
  Claim C7: an empty \<open>LogDir\<close> becomes \<^verbatim>\<open><cwd>/logs\<close> and an empty \<open>PactDir\<close>
  \<^verbatim>\<open><cwd>/pacts\<close>. The code passes the joined path to \<^verbatim>\<open>fmt.Sprintf\<close> as the format: in
  the working directory \<^verbatim>\<open>/tmp/50%off\<close> the joined paths are \<^verbatim>\<open>/tmp/50%off/logs\<close> and
  \<^verbatim>\<open>/tmp/50%off/pacts\<close>, and the directories configured are not these.
\<close>

theorem validateConfig_per_cent:
  "filepath_Join (Clean sale) (Getwd sale) ''logs'' = ''/tmp/50%off/logs'' \<and>
   filepath_Join (Clean sale) (Getwd sale) ''pacts'' = ''/tmp/50%off/pacts'' \<and>
   fst (validateConfig sale \<lparr>config = unset, PluginProvider.Interactions = ([] :: string list)\<rparr>) = None \<and>
   LogDir (config (snd (validateConfig sale
     \<lparr>config = unset, PluginProvider.Interactions = ([] :: string list)\<rparr>))) =
     ''/tmp/50%!o(MISSING)ff/logs'' \<and>
   PactDir (config (snd (validateConfig sale
     \<lparr>config = unset, PluginProvider.Interactions = ([] :: string list)\<rparr>))) =
     ''/tmp/50%!o(MISSING)ff/pacts''"
  by (simp add: validateConfig_def filepath_Join_def sale_def unset_def letter_def Let_def)

section \<open>Properties of the plugin mock server\<close>

subsection \<open>The loops over the map\<close>

lemma update_fresh: "k \<notin> fst ` set al \<Longrightarrow> AList.update k v al = al @ [(k, v)]"
  by (induction al) auto

lemma copy_loop:
  "distinct (map fst xs) \<Longrightarrow> fst ` set xs \<inter> fst ` set acc = {} \<Longrightarrow>
   fold (\<lambda>(k, v) m. AList.update k v m) xs acc = acc @ xs"
proof (induction xs arbitrary: acc)
  case Nil
  then show ?case by simp
next
  case (Cons x xs)
  obtain k v where x: "x = (k, v)" by (cases x)
  from Cons.prems have fresh: "k \<notin> fst ` set acc" by (auto simp: x)
  have "fold (\<lambda>(k, v) m. AList.update k v m) (x # xs) acc
        = fold (\<lambda>(k, v) m. AList.update k v m) xs (acc @ [(k, v)])"
    by (simp add: x update_fresh [OF fresh])
  also have "\<dots> = (acc @ [(k, v)]) @ xs"
    using Cons.prems by (intro Cons.IH) (auto simp: x)
  finally show ?case by (simp add: x)
qed

lemma delete_loop:
  "fold AList.delete ks al = filter (\<lambda>(k, v). k \<notin> set ks) al"
proof (induction ks arbitrary: al)
  case Nil
  then show ?case by simp
next
  case (Cons k ks)
  have "filter (\<lambda>(k', v). k' \<notin> set ks) (AList.delete k al) = filter (\<lambda>(k', v). k' \<notin> set (k # ks)) al"
    by (induction al) (auto simp: AList.delete_eq)
  with Cons.IH show ?case by simp
qed

lemma report_loop:
  "fold (\<lambda>(k, u) res. res @ [f u]) al acc = acc @ map (\<lambda>(k, u). f u) al"
  by (induction al arbitrary: acc) auto

lemma load_loop_keys:
  "fst ` set (fold (\<lambda>v m. AList.update (Message v) v m) vs acc) = Message ` set vs \<union> fst ` set acc"
  by (induction vs arbitrary: acc) (auto simp: dom_update)

lemma load_loop_distinct:
  "distinct (map fst acc) \<Longrightarrow> distinct (map fst (fold (\<lambda>v m. AList.update (Message v) v m) vs acc))"
  by (induction vs arbitrary: acc) (auto simp: distinct_update)

lemma load_loop_message:
  "\<forall>(k, v) \<in> set acc. Message v = k \<Longrightarrow>
   \<forall>(k, v) \<in> set (fold (\<lambda>v m. AList.update (Message v) v m) vs acc). Message v = k"
proof (induction vs arbitrary: acc)
  case Nil
  then show ?case by simp
next
  case (Cons a vs)
  have "\<forall>(k, v) \<in> set (AList.update (Message a) a acc). Message v = k"
    using Cons.prems by (induction acc) (auto split: if_splits)
  then show ?case using Cons.IH by simp
qed

lemma keys_load: "keys (load s json) = Message ` set (Interactions json)"
  by (simp add: keys_def load_def load_loop_keys)

lemma matched_load: "matchedInteractions (load s json) = matchedInteractions s"
  by (simp add: load_def)

lemma interactions_matchRequest: "interactions (snd (matchRequest message s)) = interactions s"
  by (simp add: matchRequest_def split: option.splits)

lemma keys_matchRequest: "keys (snd (matchRequest message s)) = keys s"
  by (simp add: keys_def interactions_matchRequest)

lemma matched_matchRequest:
  "matchedInteractions (snd (matchRequest message s)) =
     (if message \<in> keys s then matchedInteractions s @ [message] else matchedInteractions s)"
  by (auto simp: matchRequest_def keys_def map_of_eq_None_iff split: option.splits
           dest: map_of_SomeD) (metis domIff dom_map_of_conv_image_fst option.distinct(1))

lemma reachable_map:
  "reachable s \<Longrightarrow>
   distinct (map fst (interactions s)) \<and> (\<forall>(k, v) \<in> set (interactions s). Message v = k)"
proof (induction rule: reachable.induct)
  case (created i p)
  show ?case by simp
next
  case (loaded s json)
  show ?case
    using load_loop_distinct [of "[]" "Interactions json"]
      load_loop_message [of "[]" "Interactions json"]
    by (simp add: load_def)
next
  case (matched s message)
  then show ?case by (simp add: interactions_matchRequest)
qed

lemma sessionMismatches_eq:
  assumes "distinct (map fst (interactions s))"
  shows "Mismatches (sessionMismatches s) =
           map (\<lambda>(k, u). missing (Message u))
             (filter (\<lambda>(k, v). k \<notin> set (matchedInteractions s)) (interactions s))"
  using copy_loop [OF assms, of "[]"]
  by (simp add: sessionMismatches_def delete_loop missing_def
        report_loop [where f = "\<lambda>u. \<lparr>Actual = '''', Expected = Message u,
          Mismatch = ''expected message '' @ [CHR 0x27] @ Message u @ [CHR 0x27] @ '', but got none''\<rparr>", simplified])

lemma sessionMismatches_reachable:
  assumes "reachable s"
  shows "Mismatches (sessionMismatches s) =
           map missing (filter (\<lambda>k. k \<notin> set (matchedInteractions s)) (map fst (interactions s)))"
proof -
  from reachable_map [OF assms]
  have d: "distinct (map fst (interactions s))"
    and m: "\<forall>(k, v) \<in> set (interactions s). Message v = k" by simp_all
  have "map (\<lambda>(k, u). missing (Message u)) (filter (\<lambda>(k, v). k \<notin> set ms) xs)
        = map missing (filter (\<lambda>k. k \<notin> set ms) (map fst xs))"
    if "\<forall>(k, v) \<in> set xs. Message v = k" for xs :: interactions and ms
    using that by (induction xs) auto
  with m sessionMismatches_eq [OF d] show ?thesis by simp
qed

text \<open>
  Claim C2: for every session the server can hold, the mismatch report has exactly one
  detail for each expected message that is not among the matched messages, and no other
  entry; the detail has an empty \<open>Actual\<close>, the message as \<open>Expected\<close> and the reason
  "expected message '<message>', but got none". The matched messages enter as a set, so a
  message matched twice counts once, and a message that was matched is not reported. The
  order of the report is that of an iteration over a Go map and is left open.
\<close>

theorem sessionMismatches_report:
  assumes "reachable s"
  shows "mset (Mismatches (sessionMismatches s)) =
           image_mset missing (mset_set (keys s - set (matchedInteractions s)))"
proof -
  let ?left = "filter (\<lambda>k. k \<notin> set (matchedInteractions s)) (map fst (interactions s))"
  from reachable_map [OF assms] have "distinct ?left" by simp
  moreover have "set ?left = keys s - set (matchedInteractions s)"
    by (auto simp: keys_def)
  ultimately have "mset ?left = mset_set (keys s - set (matchedInteractions s))"
    by (metis mset_set_set)
  then have "mset (map missing ?left) =
               image_mset missing (mset_set (keys s - set (matchedInteractions s)))"
    by (simp only: mset_map)
  then show ?thesis
    by (simp only: sessionMismatches_reachable [OF assms])
qed

lemma reachable_fresh: "reachable fresh"
  unfolding fresh_def by (rule reachable.created)

theorem sessionMismatches_report_witness:
  "reachable (snd (matchRequest ''PING'' (snd (matchRequest ''PING''
      (load fresh \<lparr>Interactions = [ping, hello]\<rparr>))))) \<and>
   mset (Mismatches (sessionMismatches (snd (matchRequest ''PING'' (snd (matchRequest ''PING''
      (load fresh \<lparr>Interactions = [ping, hello]\<rparr>))))))) = {#missing ''HELLO''#}"
proof -
  let ?s = "snd (matchRequest ''PING'' (snd (matchRequest ''PING''
      (load fresh \<lparr>Interactions = [ping, hello]\<rparr>))))"
  have r: "reachable ?s"
    by (intro reachable.matched reachable.loaded reachable_fresh)
  have "keys ?s - set (matchedInteractions ?s) = {''HELLO''}"
    by (auto simp: keys_matchRequest keys_load matched_matchRequest matched_load ping_def hello_def fresh_def)
  with sessionMismatches_report [OF r] r show ?thesis by simp
qed

text \<open>
  Claim C3: the handler looks up the trimmed message, as it is, among the keys of the
  expected interactions. On a hit the key is appended to the matched messages (a second
  time on a second hit) and the configured response is returned; on a miss the response is
  empty and the session is unchanged, so the mismatch report is unchanged and, for a
  session the server can hold, does not name the message.
\<close>

theorem matchRequest_lookup:
  "handleRequest TrimSpace (buf, ReadNil) s = matchRequest (TrimSpace buf) s \<and>
   handleRequest TrimSpace (buf, ReadEOF) s = matchRequest (TrimSpace buf) s \<and>
   handleRequest TrimSpace (buf, ReadFailed) s = ('''', s) \<and>
   (\<forall>response. map_of (interactions s) message = Some response \<longrightarrow>
      message \<in> keys s \<and>
      matchRequest message s =
        (Response response, s\<lparr>matchedInteractions := matchedInteractions s @ [message]\<rparr>) \<and>
      snd (matchRequest message (snd (matchRequest message s))) =
        s\<lparr>matchedInteractions := matchedInteractions s @ [message, message]\<rparr>) \<and>
   (message \<notin> keys s \<longrightarrow>
      matchRequest message s = ('''', s) \<and>
      sessionMismatches (snd (matchRequest message s)) = sessionMismatches s \<and>
      (reachable s \<longrightarrow> message \<notin> Expected ` set (Mismatches (sessionMismatches s))))"
proof (intro conjI allI impI)
  show "handleRequest TrimSpace (buf, ReadNil) s = matchRequest (TrimSpace buf) s"
    by (simp add: handleRequest_def)
  show "handleRequest TrimSpace (buf, ReadEOF) s = matchRequest (TrimSpace buf) s"
    by (simp add: handleRequest_def)
  show "handleRequest TrimSpace (buf, ReadFailed) s = ('''', s)"
    by (simp add: handleRequest_def)
next
  fix response
  assume hit: "map_of (interactions s) message = Some response"
  then show "message \<in> keys s"
    by (auto simp: keys_def dest!: map_of_SomeD intro: rev_image_eqI)
  from hit show "matchRequest message s =
      (Response response, s\<lparr>matchedInteractions := matchedInteractions s @ [message]\<rparr>)"
    by (simp add: matchRequest_def)
  from hit show "snd (matchRequest message (snd (matchRequest message s))) =
      s\<lparr>matchedInteractions := matchedInteractions s @ [message, message]\<rparr>"
    by (simp add: matchRequest_def)
next
  assume miss: "message \<notin> keys s"
  then have none: "map_of (interactions s) message = None"
    by (simp add: keys_def map_of_eq_None_iff)
  then show m: "matchRequest message s = ('''', s)"
    by (simp add: matchRequest_def)
  then show "sessionMismatches (snd (matchRequest message s)) = sessionMismatches s"
    by simp
  assume r: "reachable s"
  have "Expected ` set (Mismatches (sessionMismatches s)) \<subseteq> keys s"
    by (force simp: sessionMismatches_reachable [OF r] keys_def missing_def)
  with miss show "message \<notin> Expected ` set (Mismatches (sessionMismatches s))"
    by blast
qed

theorem matchRequest_lookup_witness:
  "matchRequest ''PING'' (load fresh \<lparr>Interactions = [ping]\<rparr>) =
     (''PONG'', (load fresh \<lparr>Interactions = [ping]\<rparr>)\<lparr>matchedInteractions := [''PING'']\<rparr>) \<and>
   handleRequest trim (''  PING  '', ReadNil) (load fresh \<lparr>Interactions = [ping]\<rparr>) =
     (''PONG'', (load fresh \<lparr>Interactions = [ping]\<rparr>)\<lparr>matchedInteractions := [''PING'']\<rparr>) \<and>
   matchRequest ''NOPE'' (load fresh \<lparr>Interactions = [ping]\<rparr>) =
     ('''', load fresh \<lparr>Interactions = [ping]\<rparr>) \<and>
   ''NOPE'' \<notin> Expected ` set (Mismatches (sessionMismatches (load fresh \<lparr>Interactions = [ping]\<rparr>)))"
proof -
  let ?s = "load fresh \<lparr>Interactions = [ping]\<rparr>"
  have r: "reachable ?s" by (intro reachable.loaded reachable_fresh)
  have hit: "map_of (interactions ?s) ''PING'' = Some ping"
    by (simp add: load_def ping_def)
  have miss: "''NOPE'' \<notin> keys ?s"
    by (simp add: keys_load ping_def)
  have t: "trim ''  PING  '' = ''PING''" by (simp add: trim_def asciiSpace_def)
  have m: "matchedInteractions ?s = []" by (simp add: load_def fresh_def)
  show ?thesis
    using matchRequest_lookup [of trim "''  PING  ''" ?s "''PING''"]
      matchRequest_lookup [of trim "''  PING  ''" ?s "''NOPE''"] hit miss r t m
    by (simp add: ping_def)
qed

subsection \<open>The containment of the matched messages\<close>

text \<open>
  Claim C4, as stated, fails: \<open>load\<close> replaces the interaction map and keeps the matched
  messages, so a session that matched \<open>PING\<close> and is then loaded with \<open>HELLO\<close> alone holds a
  matched message that is no key of its map.
\<close>

theorem reload_breaks_containment:
  "set (matchedInteractions (snd (matchRequest ''PING'' (load fresh \<lparr>Interactions = [ping]\<rparr>))))
     \<subseteq> keys (snd (matchRequest ''PING'' (load fresh \<lparr>Interactions = [ping]\<rparr>))) \<and>
   \<not> set (matchedInteractions
           (load (snd (matchRequest ''PING'' (load fresh \<lparr>Interactions = [ping]\<rparr>)))
              \<lparr>Interactions = [hello]\<rparr>))
       \<subseteq> keys (load (snd (matchRequest ''PING'' (load fresh \<lparr>Interactions = [ping]\<rparr>)))
                 \<lparr>Interactions = [hello]\<rparr>)"
  by (simp add: keys_load keys_matchRequest matched_load matched_matchRequest
        ping_def hello_def fresh_def)

text \<open>
  Claim C4, amended: matching keeps the matched messages among the keys of the expected
  interactions, and a handler appends nothing but the message it looked up, and only when
  it is a key at that moment. The mismatch computation reads the session and returns a
  report; it changes nothing. Loading keeps the containment exactly when every message
  matched so far is among the messages loaded, as it is when nothing has been matched yet.
\<close>

theorem containment_preserved:
  "(set (matchedInteractions s) \<subseteq> keys s \<longrightarrow>
      set (matchedInteractions (snd (matchRequest message s)))
        \<subseteq> keys (snd (matchRequest message s))) \<and>
   (matchedInteractions (snd (matchRequest message s)) \<noteq> matchedInteractions s \<longrightarrow>
      message \<in> keys s \<and>
      matchedInteractions (snd (matchRequest message s)) = matchedInteractions s @ [message]) \<and>
   (set (matchedInteractions s) \<subseteq> Message ` set (Interactions json) \<longrightarrow>
      set (matchedInteractions (load s json)) \<subseteq> keys (load s json)) \<and>
   (matchedInteractions s = [] \<longrightarrow>
      set (matchedInteractions (load s json)) \<subseteq> keys (load s json)) \<and>
   (set (matchedInteractions (load s json)) \<subseteq> keys (load s json) \<longrightarrow>
      set (matchedInteractions s) \<subseteq> Message ` set (Interactions json))"
  by (auto simp: keys_load keys_matchRequest matched_load matched_matchRequest)

theorem containment_preserved_witness:
  "set (matchedInteractions (snd (matchRequest ''PING'' (load fresh \<lparr>Interactions = [ping, hello]\<rparr>))))
     \<subseteq> keys (snd (matchRequest ''PING'' (load fresh \<lparr>Interactions = [ping, hello]\<rparr>))) \<and>
   matchedInteractions (snd (matchRequest ''PING'' (load fresh \<lparr>Interactions = [ping, hello]\<rparr>)))
     = [''PING''] \<and>
   set (matchedInteractions (load fresh \<lparr>Interactions = [ping, hello]\<rparr>))
     \<subseteq> keys (load fresh \<lparr>Interactions = [ping, hello]\<rparr>) \<and>
   set (matchedInteractions
          (load (snd (matchRequest ''PING'' (load fresh \<lparr>Interactions = [ping, hello]\<rparr>)))
             \<lparr>Interactions = [ping]\<rparr>))
     \<subseteq> keys (load (snd (matchRequest ''PING'' (load fresh \<lparr>Interactions = [ping, hello]\<rparr>)))
                \<lparr>Interactions = [ping]\<rparr>)"
proof -
  let ?l = "load fresh \<lparr>Interactions = [ping, hello]\<rparr>"
  let ?m = "snd (matchRequest ''PING'' ?l)"
  have f: "matchedInteractions fresh = []" by (simp add: fresh_def)
  have l: "matchedInteractions ?l = []" by (simp add: matched_load f)
  have k: "keys ?l = {''PING'', ''HELLO''}" by (auto simp: keys_load ping_def hello_def)
  have m: "matchedInteractions ?m = [''PING'']"
    by (simp add: matched_matchRequest k l)
  show ?thesis
    using containment_preserved [of ?l "''PING''" "\<lparr>Interactions = [ping, hello]\<rparr>"]
      containment_preserved [of fresh "''PING''" "\<lparr>Interactions = [ping, hello]\<rparr>"]
      containment_preserved [of ?m "''PING''" "\<lparr>Interactions = [ping]\<rparr>"]
      f l k m
    by (simp add: ping_def)
qed

subsection \<open>Creating a session\<close>

text \<open>
  Claim C8, as stated, fails: a request whose body does not bind stores no session and is
  answered with the status 400 and no body, and the answer to a request that binds carries
  \<open>AdminPort\<close> 0, where the admin plane listens on 4444.
\<close>

theorem createSession_unbound_or_adminPort:
  "fst (createSession False 40000 ''6ba7b810'' Map.empty) ''6ba7b810'' = None \<and>
   snd (createSession False 40000 ''6ba7b810'' Map.empty) = (None, 400, None) \<and>
   map_option AdminPort (snd (snd (snd (createSession True 40000 ''6ba7b810'' Map.empty)))) = Some 0 \<and>
   adminPort = 4444"
  by (simp add: createSession_def adminPort_def StatusBadRequest_def Let_def)

text \<open>
  Claim C8, amended: for a request whose body binds, the handler stores a new session,
  with the port returned by \<open>GetFreePort\<close>, under the identifier returned by \<open>uuid.New\<close>,
  leaves every other session as it was, sends the session to the listener and answers 200
  with that identifier as \<open>id\<close> and the port of the session as \<open>port\<close>. For a request
  whose body does not bind, no session is stored, none is sent to the listener, and the
  answer is the status 400, without a body, that \<^verbatim>\<open>c.BindJSON\<close> writes.
\<close>

theorem createSession_bound:
  "(bound \<longrightarrow>
      (case createSession bound freePort uuid sessions of
         (sessions', sent, answer) \<Rightarrow>
           sessions' uuid = Some \<lparr>session_id = uuid, interactions = [],
                                  matchedInteractions = [], port = freePort\<rparr> \<and>
           sessions' = sessions(uuid := sessions' uuid) \<and>
           sent = sessions' uuid \<and>
           fst answer = StatusOK \<and> StatusOK = 200 \<and>
           map_option ID (snd answer) = Some uuid \<and>
           map_option Port (snd answer) = Some freePort \<and>
           map_option Port (snd answer) = map_option port (sessions' uuid))) \<and>
   (\<not> bound \<longrightarrow>
      createSession bound freePort uuid sessions = (sessions, None, (StatusBadRequest, None)) \<and>
      StatusBadRequest = 400)"
  by (simp add: createSession_def StatusOK_def StatusBadRequest_def Let_def)

theorem createSession_bound_witness:
  "fst (createSession True 40000 ''6ba7b810'' Map.empty) ''6ba7b810'' =
     Some \<lparr>session_id = ''6ba7b810'', interactions = [], matchedInteractions = [], port = 40000\<rparr> \<and>
   fst (snd (snd (createSession True 40000 ''6ba7b810'' Map.empty))) = 200 \<and>
   map_option Port (snd (snd (snd (createSession True 40000 ''6ba7b810'' Map.empty)))) = Some 40000 \<and>
   map_option ID (snd (snd (snd (createSession True 40000 ''6ba7b810'' Map.empty)))) = Some ''6ba7b810'' \<and>
   createSession False 40000 ''6ba7b810'' Map.empty = (Map.empty, None, (400, None))"
  using createSession_bound [where bound = True and freePort = 40000 and uuid = "''6ba7b810''"
      and sessions = Map.empty]
    createSession_bound [where bound = False and freePort = 40000 and uuid = "''6ba7b810''"
      and sessions = Map.empty]
  by (auto split: prod.splits)

end
